theory Spec2Isabelle
  imports Complex_Main
begin

section \<open>Track analysis of the location tracker\<close>

text \<open>
  The development embeds \<^verbatim>\<open>utils/haversine.ts\<close> and the statistics part of
  \<^verbatim>\<open>src/WorkoutComplete.tsx\<close>. A JavaScript \<^verbatim>\<open>number\<close> is read as a real
  number: arithmetic is exact and every value is finite. JavaScript never raises on a
  division by zero, it yields \<^verbatim>\<open>NaN\<close> or an infinity, which no real number
  stands for; the model therefore makes every division whose divisor is not a non-zero
  literal a checked division, and a zero divisor is the result
  \<open>Inl DivisionByZero\<close>.
\<close>

subsection \<open>Errors and checked division\<close>

datatype error =
    InsufficientData   \<comment> \<open>the alert "Insufficient path data provided."\<close>
  | TypeError          \<comment> \<open>reading a property of \<^verbatim>\<open>undefined\<close>\<close>
  | DivisionByZero     \<comment> \<open>a quotient with divisor 0\<close>

definition js_div :: "real \<Rightarrow> real \<Rightarrow> error + real" where
  "js_div x y = (if y = 0 then Inl DivisionByZero else Inr (x / y))"

text \<open>
  The remainder operator \<^verbatim>\<open>x % y\<close> of JavaScript truncates the quotient towards
  zero, so the result has the sign of the dividend. It is only applied with the
  literal divisor 1000.
\<close>

definition js_trunc :: "real \<Rightarrow> int" where
  "js_trunc q = (if 0 \<le> q then \<lfloor>q\<rfloor> else \<lceil>q\<rceil>)"

definition js_rem :: "real \<Rightarrow> real \<Rightarrow> real" where
  "js_rem x y = x - y * of_int (js_trunc (x / y))"

subsection \<open>The haversine distance\<close>

definition EARTH_RADIUS :: real where
  "EARTH_RADIUS = 6371000"

definition toRadians :: "real \<Rightarrow> real" where
  "toRadians deg = (deg * pi) / 180"

text \<open>
  \<^verbatim>\<open>Math.atan2(y, x)\<close>: the angle of the point \<open>(x, y)\<close>, in \<open>(-\<pi>, \<pi>]\<close>.
\<close>

definition atan2 :: "real \<Rightarrow> real \<Rightarrow> real" where
  "atan2 y x =
     (if 0 < x then arctan (y / x)
      else if x < 0 then (if 0 \<le> y then arctan (y / x) + pi else arctan (y / x) - pi)
      else if 0 < y then pi / 2
      else if y < 0 then - (pi / 2)
      else 0)"

text \<open>
  \<open>haversine_a\<close> is the local constant \<^verbatim>\<open>a\<close> of \<^verbatim>\<open>haversine\<close>.
  \<^verbatim>\<open>Math.sqrt\<close> of a negative number is \<^verbatim>\<open>NaN\<close>, where \<^term>\<open>sqrt\<close> is the
  negated root of the absolute value. Both radicands below are in \<open>[0, 1]\<close> when the
  latitudes are in \<open>[-90, 90]\<close> (lemma \<open>haversine_a_range\<close>), so the two agree on
  valid coordinates.
\<close>

definition haversine_a :: "real \<Rightarrow> real \<Rightarrow> real \<Rightarrow> real \<Rightarrow> real" where
  "haversine_a lat1 lon1 lat2 lon2 =
     (let phi1 = toRadians lat1;
          phi2 = toRadians lat2;
          dphi = toRadians (lat2 - lat1);
          dlambda = toRadians (lon2 - lon1)
      in sin (dphi / 2) * sin (dphi / 2) +
         cos phi1 * cos phi2 *
         sin (dlambda / 2) * sin (dlambda / 2))"

definition haversine :: "real \<Rightarrow> real \<Rightarrow> real \<Rightarrow> real \<Rightarrow> real" where
  "haversine lat1 lon1 lat2 lon2 =
     (let a = haversine_a lat1 lon1 lat2 lon2;
          c = 2 * atan2 (sqrt a) (sqrt (1 - a))
      in EARTH_RADIUS * c)"

definition valid_coord :: "real \<Rightarrow> real \<Rightarrow> bool" where
  "valid_coord lat lon \<longleftrightarrow> - 90 \<le> lat \<and> lat \<le> 90 \<and> - 180 \<le> lon \<and> lon \<le> 180"

subsection \<open>The stationary test\<close>

text \<open>
  \<^verbatim>\<open>isStationary(segmentDist, timeDeltaSec, speedThreshold = 0.3, pauseThresholdSec = 5)\<close>.
  The two optional parameters are explicit here; \<open>isStationary_default\<close> is the call
  with two arguments, as \<^verbatim>\<open>calculateStats\<close> makes it.
\<close>

definition isStationary :: "real \<Rightarrow> real \<Rightarrow> real \<Rightarrow> real \<Rightarrow> error + bool" where
  "isStationary segmentDist timeDeltaSec speedThreshold pauseThresholdSec =
     (if timeDeltaSec \<ge> pauseThresholdSec then
        (case js_div segmentDist timeDeltaSec of
           Inl e \<Rightarrow> Inl e
         | Inr speed \<Rightarrow> Inr (speed < speedThreshold))
      else Inr False)"

definition isStationary_default :: "real \<Rightarrow> real \<Rightarrow> error + bool" where
  "isStationary_default segmentDist timeDeltaSec =
     isStationary segmentDist timeDeltaSec (3 / 10) 5"

subsection \<open>The statistics of a path\<close>

record LngLatTimestamp =
  latitude :: real
  longitude :: real
  timestamp :: real   \<comment> \<open>milliseconds\<close>

record Split =
  km :: int
  durationSec :: real

text \<open>The local variables of \<^verbatim>\<open>calculateStats\<close> that the loop updates.\<close>

record locals =
  splitsArr :: "Split list"
  cumDist :: real
  lastSplitKm :: int
  splitStartTime :: real
  accruedMovingTime :: real
  accruedPausedTime :: real
  pauseCount :: nat

text \<open>The state variables of the component \<^verbatim>\<open>WorkoutComplete\<close>.\<close>

record stats =
  distance :: real
  movingTime :: real
  totalTime :: real
  averageSpeed :: real
  pausedSections :: nat
  splits :: "Split list"
  ready :: bool

definition init_locals :: "LngLatTimestamp \<Rightarrow> locals" where
  "init_locals p0 =
     \<lparr>splitsArr = [], cumDist = 0, lastSplitKm = 0, splitStartTime = timestamp p0,
      accruedMovingTime = 0, accruedPausedTime = 0, pauseCount = 0\<rparr>"

text \<open>One iteration of the loop, on the points \<open>path[i - 1]\<close> and \<open>path[i]\<close>.\<close>

definition loop_body :: "LngLatTimestamp \<Rightarrow> LngLatTimestamp \<Rightarrow> locals \<Rightarrow> error + locals" where
  "loop_body prev_pt curr_pt s =
     (let dist_m = haversine (latitude prev_pt) (longitude prev_pt) (latitude curr_pt) (longitude curr_pt);
          deltaT = (timestamp curr_pt - timestamp prev_pt) / 1000
      in case isStationary_default dist_m deltaT of
           Inl e \<Rightarrow> Inl e
         | Inr paused \<Rightarrow>
             if paused then
               Inr (s\<lparr>pauseCount := pauseCount s + 1,
                      accruedPausedTime := accruedPausedTime s + deltaT\<rparr>)
             else
               let s1 = s\<lparr>cumDist := cumDist s + dist_m,
                           accruedMovingTime := accruedMovingTime s + deltaT\<rparr>;
                   kmNow = \<lfloor>cumDist s1 / 1000\<rfloor>
               in if kmNow > lastSplitKm s1 then
                    let splitDur = (timestamp curr_pt - splitStartTime s1) / 1000;
                        s2 = s1\<lparr>splitsArr := splitsArr s1 @
                                  [\<lparr>km = lastSplitKm s1 + 1, durationSec = splitDur\<rparr>],
                                lastSplitKm := kmNow\<rparr>;
                        overshootMeters = js_rem (cumDist s2) 1000
                    in case js_div overshootMeters dist_m of
                         Inl e \<Rightarrow> Inl e
                       | Inr fracOfSegment \<Rightarrow>
                           Inr (s2\<lparr>splitStartTime :=
                                     timestamp curr_pt - fracOfSegment * deltaT * 1000\<rparr>)
                  else Inr s1)"

text \<open>
  The loop \<^verbatim>\<open>for (let i = 1; i < path.length; i++)\<close>: \<open>prev_pt\<close> is \<open>path[i - 1]\<close>
  and the list holds \<open>path[i]\<close>, \<open>path[i + 1]\<close>, ...
\<close>

fun loop :: "LngLatTimestamp \<Rightarrow> LngLatTimestamp list \<Rightarrow> locals \<Rightarrow> error + locals" where
  "loop prev_pt [] s = Inr s"
| "loop prev_pt (curr_pt # rest) s =
     (case loop_body prev_pt curr_pt s of
        Inl e \<Rightarrow> Inl e
      | Inr s' \<Rightarrow> loop curr_pt rest s')"

text \<open>The locals when the loop has ended; \<open>path[0]\<close> of an empty path is undefined.\<close>

definition run_loop :: "LngLatTimestamp list \<Rightarrow> error + locals" where
  "run_loop path =
     (case path of
        [] \<Rightarrow> Inl TypeError
      | p0 # rest \<Rightarrow> loop p0 rest (init_locals p0))"

definition set_state :: "LngLatTimestamp list \<Rightarrow> locals \<Rightarrow> error + stats" where
  "set_state path s =
     (let totalElapsedSec = (timestamp (last path) - timestamp (hd path)) / 1000
      in case (if accruedMovingTime s > 0
               then js_div (cumDist s) (accruedMovingTime s)
               else Inr 0) of
           Inl e \<Rightarrow> Inl e
         | Inr avg \<Rightarrow>
             Inr \<lparr>distance = cumDist s,
                  movingTime = accruedMovingTime s,
                  totalTime = totalElapsedSec,
                  averageSpeed = avg,
                  pausedSections = pauseCount s,
                  splits = splitsArr s,
                  ready = True\<rparr>)"

definition calculateStats :: "LngLatTimestamp list \<Rightarrow> error + stats" where
  "calculateStats path =
     (case run_loop path of
        Inl e \<Rightarrow> Inl e
      | Inr s \<Rightarrow> set_state path s)"

text \<open>
  The effect that \<^verbatim>\<open>WorkoutComplete\<close> runs when it is mounted. \<open>None\<close> is a
  missing \<^verbatim>\<open>summary.path\<close>. On the alert the effect returns before any state
  variable is set.
\<close>

definition WorkoutComplete :: "LngLatTimestamp list option \<Rightarrow> error + stats" where
  "WorkoutComplete path_opt =
     (case path_opt of
        None \<Rightarrow> Inl InsufficientData
      | Some path \<Rightarrow>
          if length path < 2 then Inl InsufficientData
          else calculateStats path)"

subsection \<open>The invariant of the loop and three concrete paths\<close>

text \<open>
  Before and after every iteration the last kilometre index is at least the number of
  whole kilometres of the cumulative distance.
\<close>

definition km_inv :: "locals \<Rightarrow> bool" where
  "km_inv s \<longleftrightarrow> \<lfloor>cumDist s / 1000\<rfloor> \<le> lastSplitKm s"

text \<open>
  The kilometre numbers \<open>ks\<close> of the splits pushed so far, with the last kilometre
  index \<open>l\<close>: strictly ascending, at most \<open>l\<close>, and beginning with 1.
\<close>

definition km_ascending :: "int list \<Rightarrow> int \<Rightarrow> bool" where
  "km_ascending ks l \<longleftrightarrow>
     sorted_wrt (<) ks \<and> list_all (\<lambda>k. k \<le> l) ks \<and> 0 \<le> l \<and>
     (case ks of [] \<Rightarrow> l = 0 | k # _ \<Rightarrow> k = 1)"

definition splits_inv :: "locals \<Rightarrow> bool" where
  "splits_inv s \<longleftrightarrow> km_ascending (map km (splitsArr s)) (lastSplitKm s)"

text \<open>The splits pushed so far are numbered 1, 2, ..., \<open>lastSplitKm\<close>.\<close>

definition consecutive_inv :: "locals \<Rightarrow> bool" where
  "consecutive_inv s \<longleftrightarrow>
     km_inv s \<and> 0 \<le> lastSplitKm s \<and> map km (splitsArr s) = [1..lastSplitKm s]"

text \<open>Every segment of the path from \<open>prev_pt\<close> on is shorter than 1000 m.\<close>

fun short_segments :: "LngLatTimestamp \<Rightarrow> LngLatTimestamp list \<Rightarrow> bool" where
  "short_segments prev_pt [] = True"
| "short_segments prev_pt (curr_pt # rest) =
     (haversine (latitude prev_pt) (longitude prev_pt) (latitude curr_pt) (longitude curr_pt) < 1000
      \<and> short_segments curr_pt rest)"

text \<open>Two samples at the same place, ten seconds apart.\<close>

definition still_path :: "real \<Rightarrow> real \<Rightarrow> real \<Rightarrow> LngLatTimestamp list" where
  "still_path lat lon t =
     [\<lparr>latitude = lat, longitude = lon, timestamp = t\<rparr>,
      \<lparr>latitude = lat, longitude = lon, timestamp = t + 10000\<rparr>]"

text \<open>Two samples at the same place, two seconds apart.\<close>

definition walk_path :: "LngLatTimestamp list" where
  "walk_path =
     [\<lparr>latitude = 51, longitude = 0, timestamp = 0\<rparr>,
      \<lparr>latitude = 51, longitude = 0, timestamp = 2000\<rparr>]"

text \<open>
  Three samples on the meridian of Greenwich, 0.02 degrees of latitude (about 2.2 km)
  and ten minutes apart: a walk whose samples are sparse.
\<close>

definition gap_p0 :: LngLatTimestamp where
  "gap_p0 = \<lparr>latitude = 0, longitude = 0, timestamp = 0\<rparr>"

definition gap_p1 :: LngLatTimestamp where
  "gap_p1 = \<lparr>latitude = 2 / 100, longitude = 0, timestamp = 600000\<rparr>"

definition gap_p2 :: LngLatTimestamp where
  "gap_p2 = \<lparr>latitude = 4 / 100, longitude = 0, timestamp = 1200000\<rparr>"

definition gap_path :: "LngLatTimestamp list" where
  "gap_path = [gap_p0, gap_p1, gap_p2]"

section \<open>The stationary test\<close>

lemma isStationary_default_eq:
  "isStationary_default d t = Inr (5 \<le> t \<and> d / t < 3 / 10)"
  by (simp add: isStationary_default_def isStationary_def js_div_def)

text \<open>
  C2. With the default thresholds, \<open>isStationary d t\<close> is true exactly when \<open>t \<ge> 5\<close>
  and \<open>d / t < 0.3\<close>; for \<open>t < 5\<close> it is false whatever \<open>d\<close> is.
\<close>

theorem C2_isStationary_iff:
  "isStationary d t (3 / 10) 5 = Inr (5 \<le> t \<and> d / t < 3 / 10) \<and>
   (t < 5 \<longrightarrow> isStationary d t (3 / 10) 5 = Inr False)"
  by (simp add: isStationary_def js_div_def)

theorem C2_isStationary_iff_witness:
  "isStationary 0 4 (3 / 10) 5 = Inr (5 \<le> (4::real) \<and> (0::real) / 4 < 3 / 10) \<and>
   (4::real) < 5 \<and> isStationary 0 4 (3 / 10) 5 = Inr False"
  using C2_isStationary_iff [of 0 4] by simp

text \<open>
  C8. With the default thresholds \<open>isStationary\<close> always returns a truth value: the
  quotient is only formed when \<open>timeDeltaSec \<ge> 5\<close>, so never with a zero divisor,
  and for \<open>timeDeltaSec = 0\<close> the result is \<open>false\<close>.
\<close>

theorem C8_isStationary_total:
  "(\<exists>b. isStationary d t (3 / 10) 5 = Inr b) \<and>
   isStationary d t (3 / 10) 5 \<noteq> Inl DivisionByZero \<and>
   isStationary d 0 (3 / 10) 5 = Inr False"
  by (auto simp add: isStationary_def js_div_def)

section \<open>The haversine distance\<close>

lemma haversine_same: "haversine lat lon lat lon = 0"
  by (simp add: haversine_def haversine_a_def toRadians_def atan2_def)

lemma toRadians_diff: "toRadians (x - y) = toRadians x - toRadians y"
  by (simp add: toRadians_def field_simps)

lemma sin_half_sq: "sin (x / 2) * sin (x / 2) = (1 - cos x) / (2::real)"
  using cos_double_sin [of "x / 2"] by (simp add: power2_eq_square)

lemma toRadians_mono: "x \<le> y \<Longrightarrow> toRadians x \<le> toRadians y"
  by (simp add: toRadians_def divide_right_mono)

lemma toRadians_strict_mono: "x < y \<Longrightarrow> toRadians x < toRadians y"
  by (simp add: toRadians_def divide_strict_right_mono)

lemma toRadians_values:
  "toRadians 0 = 0" "toRadians 90 = pi / 2" "toRadians (- 90) = - (pi / 2)"
  "toRadians 180 = pi"
  by (simp_all add: toRadians_def)

lemma cos_toRadians_nonneg:
  assumes "- 90 \<le> lat" "lat \<le> 90"
  shows "0 \<le> cos (toRadians lat)"
proof (rule cos_ge_zero)
  show "- (pi / 2) \<le> toRadians lat"
    using toRadians_mono [OF assms(1)] by (simp add: toRadians_values)
  show "toRadians lat \<le> pi / 2"
    using toRadians_mono [OF assms(2)] by (simp add: toRadians_values)
qed

lemma haversine_a_range:
  assumes "- 90 \<le> lat1" "lat1 \<le> 90" "- 90 \<le> lat2" "lat2 \<le> 90"
  shows "0 \<le> haversine_a lat1 lon1 lat2 lon2" and "haversine_a lat1 lon1 lat2 lon2 \<le> 1"
proof -
  define p1 p2 dl where "p1 = toRadians lat1" and "p2 = toRadians lat2"
    and "dl = toRadians (lon2 - lon1)"
  have c1: "0 \<le> cos p1" and c2: "0 \<le> cos p2"
    using assms by (simp_all add: p1_def p2_def cos_toRadians_nonneg)
  have a: "haversine_a lat1 lon1 lat2 lon2 =
             (1 - cos (p2 - p1)) / 2 + cos p1 * cos p2 * ((1 - cos dl) / 2)"
    by (simp add: haversine_a_def Let_def toRadians_diff sin_half_sq p1_def p2_def dl_def
        mult.assoc)
  have cc: "0 \<le> cos p1 * cos p2" using c1 c2 by simp
  have h: "0 \<le> (1 - cos dl) / 2" "(1 - cos dl) / 2 \<le> 1"
    using cos_le_one [of dl] cos_ge_minus_one [of dl] by simp_all
  have m0: "0 \<le> cos p1 * cos p2 * ((1 - cos dl) / 2)"
    using cc h(1) by (rule mult_nonneg_nonneg)
  have m1: "cos p1 * cos p2 * ((1 - cos dl) / 2) \<le> cos p1 * cos p2"
    using mult_left_mono [OF h(2) cc] by simp
  have "0 \<le> (1 - cos (p2 - p1)) / 2" by simp
  then show "0 \<le> haversine_a lat1 lon1 lat2 lon2"
    unfolding a using m0 by (rule add_nonneg_nonneg)
  have "(1 - cos (p2 - p1)) / 2 + cos p1 * cos p2 = (1 + cos (p1 + p2)) / 2"
    by (simp add: cos_diff cos_add field_simps)
  moreover have "(1 + cos (p1 + p2)) / 2 \<le> 1" by simp
  ultimately have u: "(1 - cos (p2 - p1)) / 2 + cos p1 * cos p2 \<le> 1" by (simp only:)
  have le: "x + y \<le> 1" if "x + z \<le> 1" "y \<le> z" for x y z :: real
    using that by linarith
  show "haversine_a lat1 lon1 lat2 lon2 \<le> 1"
    unfolding a using u m1 by (rule le)
qed

lemma atan2_nonneg:
  assumes y: "0 \<le> y"
  shows "0 \<le> atan2 y x"
proof -
  consider "0 < x" | "x < 0" | "x = 0" by linarith
  then show ?thesis
  proof cases
    case 1
    then show ?thesis using y by (simp add: atan2_def)
  next
    case 2
    have "- (pi / 2) < arctan (y / x)" by (rule arctan_lbound)
    then have "0 \<le> arctan (y / x) + pi" using pi_gt_zero by linarith
    then show ?thesis using 2 y by (simp add: atan2_def)
  next
    case 3
    then show ?thesis using y by (simp add: atan2_def)
  qed
qed

lemma haversine_nonneg:
  assumes "- 90 \<le> lat1" "lat1 \<le> 90" "- 90 \<le> lat2" "lat2 \<le> 90"
  shows "0 \<le> haversine lat1 lon1 lat2 lon2"
  using haversine_a_range(1) [OF assms, of lon1 lon2]
  by (simp add: haversine_def Let_def EARTH_RADIUS_def atan2_nonneg)

lemma haversine_meridian:
  assumes "lat1 \<le> lat2" "lat2 - lat1 < 180"
  shows "haversine lat1 lon lat2 lon = EARTH_RADIUS * toRadians (lat2 - lat1)"
proof -
  define x where "x = toRadians (lat2 - lat1) / 2"
  have x0: "0 \<le> x"
    using toRadians_mono [of 0 "lat2 - lat1"] assms(1) by (simp add: x_def toRadians_values)
  have x1: "x < pi / 2"
    using toRadians_strict_mono [OF assms(2)] by (simp add: x_def toRadians_values)
  have s: "0 \<le> sin x" using x0 x1 by (intro sin_ge_zero) simp_all
  have c: "0 < cos x" using x0 x1 by (intro cos_gt_zero_pi) simp_all
  have a: "haversine_a lat1 lon lat2 lon = (sin x)\<^sup>2"
    by (simp add: haversine_a_def Let_def x_def power2_eq_square toRadians_values)
  have "1 - (sin x)\<^sup>2 = (cos x)\<^sup>2"
    by (simp add: cos_squared_eq)
  then have r: "sqrt (1 - (sin x)\<^sup>2) = cos x" using c by simp
  have "atan2 (sin x) (cos x) = arctan (tan x)"
    using c by (simp add: atan2_def tan_def)
  also have "\<dots> = x" using x0 x1 by (intro arctan_tan) simp_all
  finally have t: "atan2 (sin x) (cos x) = x" .
  have q: "sqrt ((sin x)\<^sup>2) = sin x" using s by simp
  have "haversine lat1 lon lat2 lon =
          EARTH_RADIUS * (2 * atan2 (sqrt ((sin x)\<^sup>2)) (sqrt (1 - (sin x)\<^sup>2)))"
    by (simp add: haversine_def Let_def a)
  also have "\<dots> = EARTH_RADIUS * (2 * x)" by (simp only: q r t)
  finally show ?thesis by (simp add: x_def)
qed

lemma sin_half_toRadians_swap:
  "sin (toRadians (x - y) / 2) * sin (toRadians (x - y) / 2) =
   sin (toRadians (y - x) / 2) * sin (toRadians (y - x) / 2)"
proof -
  have "toRadians (x - y) / 2 = - (toRadians (y - x) / 2)"
    by (simp add: toRadians_def field_simps)
  then show ?thesis by simp
qed

lemma haversine_a_sym: "haversine_a lat1 lon1 lat2 lon2 = haversine_a lat2 lon2 lat1 lon1"
  unfolding haversine_a_def Let_def
  using sin_half_toRadians_swap [of lat2 lat1] sin_half_toRadians_swap [of lon2 lon1]
  by (simp add: mult.assoc mult.commute mult.left_commute)

text \<open>
  C9. The haversine distance is symmetric: for coordinates in the valid ranges,
  the distance from \<open>a\<close> to \<open>b\<close> is the distance from \<open>b\<close> to \<open>a\<close>.
\<close>

theorem C9_haversine_symmetric:
  assumes "valid_coord lat1 lon1" "valid_coord lat2 lon2"
  shows "haversine lat1 lon1 lat2 lon2 = haversine lat2 lon2 lat1 lon1"
  by (simp add: haversine_def haversine_a_sym [of lat1 lon1 lat2 lon2])

theorem C9_haversine_symmetric_witness:
  "valid_coord 51 0 \<and> valid_coord 48 2 \<and> haversine 51 0 48 2 = haversine 48 2 51 0"
proof -
  have a: "valid_coord 51 0" and b: "valid_coord 48 2" by (simp_all add: valid_coord_def)
  show ?thesis using a b C9_haversine_symmetric [OF a b] by simp
qed


section \<open>The loop never divides by zero\<close>

lemma crossing_pos:
  assumes "\<lfloor>c / 1000\<rfloor> \<le> k" "k < \<lfloor>(c + d) / 1000\<rfloor>"
  shows "0 < (d::real)"
proof (rule ccontr)
  assume "\<not> 0 < d"
  then have "(c + d) / 1000 \<le> c / 1000" by simp
  then have "\<lfloor>(c + d) / 1000\<rfloor> \<le> \<lfloor>c / 1000\<rfloor>" by (rule floor_mono)
  with assms show False by linarith
qed

lemma km_inv_init: "km_inv (init_locals p0)"
  by (simp add: km_inv_def init_locals_def)

lemma loop_body_km_inv:
  "loop_body p c s = Inr s' \<Longrightarrow> km_inv s \<Longrightarrow> km_inv s'"
  by (auto simp: km_inv_def loop_body_def Let_def isStationary_default_eq js_div_def split: if_splits)

lemma loop_body_total:
  "km_inv s \<Longrightarrow> \<exists>s'. loop_body p c s = Inr s'"
  using crossing_pos [of "cumDist s" "lastSplitKm s"]
  by (auto simp: km_inv_def loop_body_def Let_def isStationary_default_eq js_div_def split: if_splits)

lemma loop_total:
  "km_inv s \<Longrightarrow> \<exists>s'. loop p ps s = Inr s' \<and> km_inv s'"
proof (induction ps arbitrary: p s)
  case Nil
  then show ?case by simp
next
  case (Cons c ps)
  from loop_body_total [OF Cons.prems] obtain s1 where s1: "loop_body p c s = Inr s1" by blast
  then have "km_inv s1" using Cons.prems by (rule loop_body_km_inv)
  from Cons.IH [OF this] show ?case using s1 by simp
qed

lemma run_loop_total:
  "\<exists>s. run_loop (p0 # rest) = Inr s \<and> km_inv s"
  using loop_total [OF km_inv_init] by (simp add: run_loop_def)

lemma set_state_total: "\<exists>st. set_state path s = Inr st"
  by (simp add: set_state_def Let_def js_div_def)

lemma calculateStats_total: "\<exists>st. calculateStats (p0 # rest) = Inr st"
proof -
  obtain s where "run_loop (p0 # rest) = Inr s" using run_loop_total by blast
  then show ?thesis using set_state_total [of "p0 # rest" s] by (simp add: calculateStats_def)
qed

lemma WorkoutComplete_accepts:
  "2 \<le> length path \<Longrightarrow> WorkoutComplete (Some path) = calculateStats path"
  by (simp add: WorkoutComplete_def)

lemma calculateStats_fields:
  assumes "run_loop path = Inr s"
  shows "\<exists>st. calculateStats path = Inr st \<and>
           distance st = cumDist s \<and> movingTime st = accruedMovingTime s \<and>
           totalTime st = (timestamp (last path) - timestamp (hd path)) / 1000 \<and>
           averageSpeed st =
             (if accruedMovingTime s > 0 then cumDist s / accruedMovingTime s else 0) \<and>
           pausedSections st = pauseCount s \<and> splits st = splitsArr s \<and> ready st"
  using assms by (simp add: calculateStats_def set_state_def Let_def js_div_def)

lemma loop_append:
  "loop p (xs @ ys) s =
     (case loop p xs s of Inl e \<Rightarrow> Inl e | Inr s1 \<Rightarrow> loop (last (p # xs)) ys s1)"
  by (induction xs arbitrary: p s) (auto split: sum.splits)

section \<open>The path with sparse samples\<close>

lemma pi_ge_three: "3 \<le> pi"
proof -
  have "sin (pi / 6) \<le> pi / 6" by (rule sin_x_le_x) simp
  then show ?thesis by (simp add: sin_30)
qed

lemma gap_floor1: "\<lfloor>6371 * pi / 9 / 1000\<rfloor> = 2"
  using pi_ge_three pi_less_4 by (simp add: floor_eq_iff) 

lemma gap_floor2: "3 < \<lfloor>(6371 * pi / 9 + 6371 * pi / 9) / 1000\<rfloor>"
  using pi_ge_three by (simp add: less_floor_iff)  

lemma gap_moving: "isStationary_default (6371 * pi / 9) 600 = Inr False"
  using pi_ge_three by (simp add: isStationary_default_eq)

lemma loop_body_crossing:
  assumes "isStationary_default
             (haversine (latitude p) (longitude p) (latitude c) (longitude c))
             ((timestamp c - timestamp p) / 1000) = Inr False"
    and "lastSplitKm s <
           \<lfloor>(cumDist s + haversine (latitude p) (longitude p) (latitude c) (longitude c)) / 1000\<rfloor>"
    and "haversine (latitude p) (longitude p) (latitude c) (longitude c) \<noteq> 0"
  shows "\<exists>s'. loop_body p c s = Inr s' \<and>
           map km (splitsArr s') = map km (splitsArr s) @ [lastSplitKm s + 1] \<and>
           lastSplitKm s' =
             \<lfloor>(cumDist s + haversine (latitude p) (longitude p) (latitude c) (longitude c)) / 1000\<rfloor> \<and>
           cumDist s' = cumDist s + haversine (latitude p) (longitude p) (latitude c) (longitude c)"
  using assms by (simp add: loop_body_def Let_def js_div_def)

lemma gap_dist01:
  "haversine (latitude gap_p0) (longitude gap_p0) (latitude gap_p1) (longitude gap_p1) =
     6371 * pi / 9"
  using haversine_meridian [of 0 "2 / 100" 0]
  by (simp add: gap_p0_def gap_p1_def EARTH_RADIUS_def toRadians_def)

lemma gap_dist12:
  "haversine (latitude gap_p1) (longitude gap_p1) (latitude gap_p2) (longitude gap_p2) =
     6371 * pi / 9"
  using haversine_meridian [of "2 / 100" "4 / 100" 0]
  by (simp add: gap_p1_def gap_p2_def EARTH_RADIUS_def toRadians_def)

lemma gap_dist_pos: "6371 * pi / 9 \<noteq> 0"
  by simp

lemma gap_step1:
  "\<exists>s1. loop_body gap_p0 gap_p1 (init_locals gap_p0) = Inr s1 \<and>
      map km (splitsArr s1) = [1] \<and> lastSplitKm s1 = 2 \<and> cumDist s1 = 6371 * pi / 9"
proof -
  have m: "isStationary_default
             (haversine (latitude gap_p0) (longitude gap_p0) (latitude gap_p1) (longitude gap_p1))
             ((timestamp gap_p1 - timestamp gap_p0) / 1000) = Inr False"
    unfolding gap_dist01 using gap_moving by (simp add: gap_p0_def gap_p1_def)
  have x: "lastSplitKm (init_locals gap_p0) <
             \<lfloor>(cumDist (init_locals gap_p0) +
                haversine (latitude gap_p0) (longitude gap_p0) (latitude gap_p1) (longitude gap_p1))
               / 1000\<rfloor>"
    unfolding gap_dist01 using gap_floor1 by (simp add: init_locals_def)
  have n: "haversine (latitude gap_p0) (longitude gap_p0) (latitude gap_p1) (longitude gap_p1) \<noteq> 0"
    unfolding gap_dist01 by (rule gap_dist_pos)
  from loop_body_crossing [OF m x n] show ?thesis
    unfolding gap_dist01 using gap_floor1 by (simp add: init_locals_def)
qed

lemma gap_step2:
  assumes "lastSplitKm s1 = 2" "cumDist s1 = 6371 * pi / 9"
  shows "\<exists>s2. loop_body gap_p1 gap_p2 s1 = Inr s2 \<and>
      map km (splitsArr s2) = map km (splitsArr s1) @ [3]"
proof -
  have m: "isStationary_default
             (haversine (latitude gap_p1) (longitude gap_p1) (latitude gap_p2) (longitude gap_p2))
             ((timestamp gap_p2 - timestamp gap_p1) / 1000) = Inr False"
    unfolding gap_dist12 using gap_moving by (simp add: gap_p1_def gap_p2_def)
  have x: "lastSplitKm s1 <
             \<lfloor>(cumDist s1 +
                haversine (latitude gap_p1) (longitude gap_p1) (latitude gap_p2) (longitude gap_p2))
               / 1000\<rfloor>"
    unfolding gap_dist12 assms using gap_floor2 by simp
  have n: "haversine (latitude gap_p1) (longitude gap_p1) (latitude gap_p2) (longitude gap_p2) \<noteq> 0"
    unfolding gap_dist12 by (rule gap_dist_pos)
  from loop_body_crossing [OF m x n] show ?thesis
    by (auto simp: assms)
qed

text \<open>
  C10. The branch of the kilometre boundary is entered only on a segment of positive
  distance, so the quotient \<open>overshootMeters / dist\<close> has a non-zero divisor: the
  invariant \<open>floor (cumDist / 1000) \<le> lastSplitKm\<close> holds when the loop has run over
  any path (so at the start of every iteration, which is the end of the loop on a
  prefix, see \<open>loop_append\<close>), a segment that lifts the floor above \<open>lastSplitKm\<close>
  has positive distance, every iteration from a state with the invariant returns a
  state with the invariant, the haversine distance of valid coordinates is not
  negative, and no run ends in a division by zero.
\<close>

theorem C10_split_quotient_defined:
  "(\<exists>s. run_loop (p0 # rest) = Inr s \<and> \<lfloor>cumDist s / 1000\<rfloor> \<le> lastSplitKm s) \<and>
   (\<lfloor>cumDist s / 1000\<rfloor> \<le> lastSplitKm s \<and>
    lastSplitKm s <
      \<lfloor>(cumDist s + haversine (latitude p) (longitude p) (latitude c) (longitude c)) / 1000\<rfloor>
    \<longrightarrow> 0 < haversine (latitude p) (longitude p) (latitude c) (longitude c)) \<and>
   (\<lfloor>cumDist s / 1000\<rfloor> \<le> lastSplitKm s
    \<longrightarrow> (\<exists>s'. loop_body p c s = Inr s' \<and> \<lfloor>cumDist s' / 1000\<rfloor> \<le> lastSplitKm s')) \<and>
   (valid_coord (latitude p) (longitude p) \<and> valid_coord (latitude c) (longitude c)
    \<longrightarrow> 0 \<le> haversine (latitude p) (longitude p) (latitude c) (longitude c)) \<and>
   WorkoutComplete path_opt \<noteq> Inl DivisionByZero"
proof (intro conjI impI)
  show "\<exists>s. run_loop (p0 # rest) = Inr s \<and> \<lfloor>cumDist s / 1000\<rfloor> \<le> lastSplitKm s"
    using run_loop_total [of p0 rest] by (simp add: km_inv_def)
next
  assume "\<lfloor>cumDist s / 1000\<rfloor> \<le> lastSplitKm s \<and>
    lastSplitKm s <
      \<lfloor>(cumDist s + haversine (latitude p) (longitude p) (latitude c) (longitude c)) / 1000\<rfloor>"
  then show "0 < haversine (latitude p) (longitude p) (latitude c) (longitude c)"
    using crossing_pos by blast
next
  assume a: "\<lfloor>cumDist s / 1000\<rfloor> \<le> lastSplitKm s"
  then have k: "km_inv s" by (simp add: km_inv_def)
  from loop_body_total [OF k] obtain s' where s': "loop_body p c s = Inr s'" by blast
  from loop_body_km_inv [OF s' k] s'
  show "\<exists>s'. loop_body p c s = Inr s' \<and> \<lfloor>cumDist s' / 1000\<rfloor> \<le> lastSplitKm s'"
    by (simp add: km_inv_def)
next
  assume "valid_coord (latitude p) (longitude p) \<and> valid_coord (latitude c) (longitude c)"
  then show "0 \<le> haversine (latitude p) (longitude p) (latitude c) (longitude c)"
    by (simp add: valid_coord_def haversine_nonneg)
next
  show "WorkoutComplete path_opt \<noteq> Inl DivisionByZero"
  proof (cases path_opt)
    case None
    then show ?thesis by (simp add: WorkoutComplete_def)
  next
    case (Some path)
    show ?thesis
    proof (cases path)
      case Nil
      then show ?thesis using Some by (simp add: WorkoutComplete_def)
    next
      case (Cons q qs)
      from calculateStats_total [of q qs] show ?thesis
        using Some Cons by (auto simp: WorkoutComplete_def)
    qed
  qed
qed

theorem C10_split_quotient_defined_witness:
  "(\<exists>s. run_loop (gap_p0 # [gap_p1, gap_p2]) = Inr s \<and> \<lfloor>cumDist s / 1000\<rfloor> \<le> lastSplitKm s) \<and>
   \<lfloor>cumDist (init_locals gap_p0) / 1000\<rfloor> \<le> lastSplitKm (init_locals gap_p0) \<and>
   lastSplitKm (init_locals gap_p0) <
      \<lfloor>(cumDist (init_locals gap_p0) +
         haversine (latitude gap_p0) (longitude gap_p0) (latitude gap_p1) (longitude gap_p1)) / 1000\<rfloor> \<and>
   0 < haversine (latitude gap_p0) (longitude gap_p0) (latitude gap_p1) (longitude gap_p1) \<and>
   (\<exists>s'. loop_body gap_p0 gap_p1 (init_locals gap_p0) = Inr s' \<and>
      \<lfloor>cumDist s' / 1000\<rfloor> \<le> lastSplitKm s') \<and>
   valid_coord (latitude gap_p0) (longitude gap_p0) \<and>
   valid_coord (latitude gap_p1) (longitude gap_p1) \<and>
   0 \<le> haversine (latitude gap_p0) (longitude gap_p0) (latitude gap_p1) (longitude gap_p1) \<and>
   WorkoutComplete (Some gap_path) \<noteq> Inl DivisionByZero"
proof -
  have d: "haversine (latitude gap_p0) (longitude gap_p0) (latitude gap_p1) (longitude gap_p1)
             = 6371 * pi / 9"
    by (rule gap_dist01)
  have i: "\<lfloor>cumDist (init_locals gap_p0) / 1000\<rfloor> \<le> lastSplitKm (init_locals gap_p0)"
    by (simp add: init_locals_def)
  have x: "lastSplitKm (init_locals gap_p0) <
      \<lfloor>(cumDist (init_locals gap_p0) +
         haversine (latitude gap_p0) (longitude gap_p0) (latitude gap_p1) (longitude gap_p1)) / 1000\<rfloor>"
    using gap_floor1 by (simp add: d init_locals_def)
  have v: "valid_coord (latitude gap_p0) (longitude gap_p0)"
    "valid_coord (latitude gap_p1) (longitude gap_p1)"
    by (simp_all add: valid_coord_def gap_p0_def gap_p1_def)
  show ?thesis
    using i x v
      C10_split_quotient_defined [of gap_p0 "[gap_p1, gap_p2]" "init_locals gap_p0"
        gap_p0 gap_p1 "Some gap_path"]
    by simp
qed

text \<open>
  C1 fails on the path with sparse samples. Each of its two segments is about 2.2 km
  long: the first crosses the boundaries of kilometres 1 and 2 and yields the one split
  \<open>km = 1\<close>, after which \<open>lastSplitKm\<close> is 2; the second yields \<open>km = 3\<close>.
  The splits are numbered 1, 3 and kilometre 2 has none.
\<close>

theorem C1_km_index_skipped:
  "\<exists>st. WorkoutComplete (Some gap_path) = Inr st \<and>
      map km (splits st) = [1, 3]"
proof -
  from gap_step1 obtain s1 where s1: "loop_body gap_p0 gap_p1 (init_locals gap_p0) = Inr s1"
    "map km (splitsArr s1) = [1]" "lastSplitKm s1 = 2" "cumDist s1 = 6371 * pi / 9" by auto
  from gap_step2 [OF s1(3,4)] obtain s2 where s2: "loop_body gap_p1 gap_p2 s1 = Inr s2"
    "map km (splitsArr s2) = map km (splitsArr s1) @ [3]" by auto
  have "run_loop gap_path = Inr s2"
    using s1(1) s2(1) by (simp add: run_loop_def gap_path_def)
  from calculateStats_fields [OF this] s1(2) s2(2) show ?thesis
    by (auto simp: WorkoutComplete_def gap_path_def)
qed

subsection \<open>What holds of the kilometre numbers\<close>

text \<open>
  On every path the kilometre numbers of the splits are strictly ascending and the
  first one is 1. When every segment is shorter than 1000 m they are 1, 2, ..., n.
\<close>

lemma loop_body_splits:
  assumes "loop_body p c s = Inr s'"
  shows "(lastSplitKm s' = lastSplitKm s \<and> splitsArr s' = splitsArr s) \<or>
         (lastSplitKm s < lastSplitKm s' \<and>
          lastSplitKm s' =
            \<lfloor>(cumDist s + haversine (latitude p) (longitude p) (latitude c) (longitude c)) / 1000\<rfloor> \<and>
          map km (splitsArr s') = map km (splitsArr s) @ [lastSplitKm s + 1])"
  using assms
  by (auto simp: loop_body_def Let_def isStationary_default_eq js_div_def split: if_splits)

lemma km_ascending_snoc:
  "km_ascending ks l \<Longrightarrow> l < l' \<Longrightarrow> km_ascending (ks @ [l + 1]) l'"
  by (cases ks) (auto simp: km_ascending_def sorted_wrt_append list_all_iff)

lemma loop_body_splits_inv:
  assumes "loop_body p c s = Inr s'" "splits_inv s"
  shows "splits_inv s'"
  using loop_body_splits [OF assms(1)] assms(2) km_ascending_snoc
  unfolding splits_inv_def by (elim disjE conjE) simp_all

lemma loop_splits_inv:
  "loop p ps s = Inr s' \<Longrightarrow> splits_inv s \<Longrightarrow> splits_inv s'"
proof (induction ps arbitrary: p s)
  case Nil
  then show ?case by simp
next
  case (Cons c ps)
  from Cons.prems(1) obtain s1 where s1: "loop_body p c s = Inr s1" and l: "loop c ps s1 = Inr s'"
    by (auto split: sum.splits)
  from Cons.IH [OF l loop_body_splits_inv [OF s1 Cons.prems(2)]] show ?case .
qed

lemma splits_km_ascending:
  assumes "calculateStats path = Inr st"
  shows "sorted_wrt (<) (map km (splits st)) \<and> (splits st = [] \<or> km (hd (splits st)) = 1)"
proof -
  from assms obtain p0 rest s where p: "path = p0 # rest"
    and s: "loop p0 rest (init_locals p0) = Inr s" and st: "splits st = splitsArr s"
    by (cases path) (auto simp: calculateStats_def run_loop_def set_state_def Let_def js_div_def
        split: sum.splits if_splits)
  have "splits_inv (init_locals p0)"
    by (simp add: splits_inv_def km_ascending_def init_locals_def)
  from loop_splits_inv [OF s this] show ?thesis
    by (auto simp: splits_inv_def km_ascending_def st split: list.splits)
qed

lemma floor_step:
  assumes "d < 1000" "\<lfloor>c / 1000\<rfloor> \<le> k"
  shows "\<lfloor>(c + d) / 1000\<rfloor> \<le> k + 1"
proof -
  have "(c + d) / 1000 < c / 1000 + 1" using assms(1) by simp
  then have "\<lfloor>(c + d) / 1000\<rfloor> \<le> \<lfloor>c / 1000 + 1\<rfloor>" by (intro floor_mono) simp
  then show ?thesis using assms(2) by simp
qed

lemma loop_body_consecutive:
  assumes "loop_body p c s = Inr s'" "consecutive_inv s"
    and "haversine (latitude p) (longitude p) (latitude c) (longitude c) < 1000"
  shows "consecutive_inv s'"
proof -
  from assms(2) have i: "km_inv s" "0 \<le> lastSplitKm s" "map km (splitsArr s) = [1..lastSplitKm s]"
    by (simp_all add: consecutive_inv_def)
  have k: "km_inv s'" using assms(1) i(1) by (rule loop_body_km_inv)
  from loop_body_splits [OF assms(1)]
  have "0 \<le> lastSplitKm s' \<and> map km (splitsArr s') = [1..lastSplitKm s']"
  proof
    assume "lastSplitKm s' = lastSplitKm s \<and> splitsArr s' = splitsArr s"
    then show ?thesis using i by simp
  next
    assume a: "lastSplitKm s < lastSplitKm s' \<and>
          lastSplitKm s' =
            \<lfloor>(cumDist s + haversine (latitude p) (longitude p) (latitude c) (longitude c)) / 1000\<rfloor> \<and>
          map km (splitsArr s') = map km (splitsArr s) @ [lastSplitKm s + 1]"
    have "lastSplitKm s' \<le> lastSplitKm s + 1"
      using a floor_step [OF assms(3), of "cumDist s" "lastSplitKm s"] i(1)
      by (simp add: km_inv_def)
    with a have e: "lastSplitKm s' = lastSplitKm s + 1" by linarith
    have u: "[1..lastSplitKm s + 1] = [1..lastSplitKm s] @ [lastSplitKm s + 1]"
      using i(2) by (simp add: upto_rec2)
    from a have m: "map km (splitsArr s') = map km (splitsArr s) @ [lastSplitKm s + 1]"
      by blast
    have "map km (splitsArr s') = [1..lastSplitKm s']"
      by (simp only: m i(3) e u)
    moreover have "0 \<le> lastSplitKm s'" using e i(2) by linarith
    ultimately show ?thesis by blast
  qed
  with k show ?thesis by (simp add: consecutive_inv_def)
qed

lemma loop_consecutive:
  "loop p ps s = Inr s' \<Longrightarrow> consecutive_inv s \<Longrightarrow> short_segments p ps \<Longrightarrow> consecutive_inv s'"
proof (induction ps arbitrary: p s)
  case Nil
  then show ?case by simp
next
  case (Cons c ps)
  from Cons.prems(1) obtain s1 where s1: "loop_body p c s = Inr s1" and l: "loop c ps s1 = Inr s'"
    by (auto split: sum.splits)
  from Cons.prems(3) have d: "haversine (latitude p) (longitude p) (latitude c) (longitude c) < 1000"
    and r: "short_segments c ps" by simp_all
  from Cons.IH [OF l loop_body_consecutive [OF s1 Cons.prems(2) d] r] show ?case .
qed

lemma splits_km_consecutive:
  assumes "short_segments p0 rest"
  shows "\<exists>st. calculateStats (p0 # rest) = Inr st \<and>
           map km (splits st) = [1..int (length (splits st))]"
proof -
  obtain s where s: "run_loop (p0 # rest) = Inr s" using run_loop_total by blast
  then have l: "loop p0 rest (init_locals p0) = Inr s" by (simp add: run_loop_def)
  have "consecutive_inv (init_locals p0)"
    by (simp add: consecutive_inv_def km_inv_init) (simp add: init_locals_def)
  from loop_consecutive [OF l this assms] have c: "0 \<le> lastSplitKm s"
    "map km (splitsArr s) = [1..lastSplitKm s]" by (simp_all add: consecutive_inv_def)
  from c(2) have "length (splitsArr s) = length [1..lastSplitKm s]" by (metis length_map)
  then have "int (length (splitsArr s)) = lastSplitKm s" using c(1) by simp
  with c(2) calculateStats_fields [OF s] show ?thesis by auto
qed

section \<open>The statistics\<close>

text \<open>
  C3. A path with fewer than two points, or no path, gives the alert for insufficient
  data and no statistics: \<open>calculateStats\<close> is not run and no state variable is set.
\<close>

theorem C3_insufficient_data:
  "WorkoutComplete None = Inl InsufficientData \<and>
   (length path < 2 \<longrightarrow> WorkoutComplete (Some path) = Inl InsufficientData)"
  by (simp add: WorkoutComplete_def)

theorem C3_insufficient_data_witness:
  "WorkoutComplete None = Inl InsufficientData \<and>
   length [\<lparr>latitude = 51, longitude = 0, timestamp = 0\<rparr>] < 2 \<and>
   WorkoutComplete (Some [\<lparr>latitude = 51, longitude = 0, timestamp = 0\<rparr>]) = Inl InsufficientData"
  using C3_insufficient_data [of "[\<lparr>latitude = 51, longitude = 0, timestamp = 0\<rparr>]"]
  by simp

lemma loop_body_time:
  "loop_body p c s = Inr s' \<Longrightarrow>
   accruedMovingTime s' + accruedPausedTime s' =
   accruedMovingTime s + accruedPausedTime s + (timestamp c - timestamp p) / 1000"
  by (auto simp: loop_body_def Let_def isStationary_default_eq js_div_def split: if_splits)

lemma loop_time:
  "loop p ps s = Inr s' \<Longrightarrow>
   accruedMovingTime s' + accruedPausedTime s' =
   accruedMovingTime s + accruedPausedTime s + (timestamp (last (p # ps)) - timestamp p) / 1000"
proof (induction ps arbitrary: p s)
  case Nil
  then show ?case by simp
next
  case (Cons c ps)
  from Cons.prems obtain s1 where s1: "loop_body p c s = Inr s1" and l: "loop c ps s1 = Inr s'"
    by (auto split: sum.splits)
  from Cons.IH [OF l] loop_body_time [OF s1] show ?case by (simp add: field_simps)
qed

lemma run_loop_time:
  "run_loop path = Inr s \<Longrightarrow>
   accruedMovingTime s + accruedPausedTime s = (timestamp (last path) - timestamp (hd path)) / 1000"
  by (cases path) (auto simp: run_loop_def init_locals_def dest!: loop_time)

lemma loop_body_time_cases:
  "loop_body p c s = Inr s' \<Longrightarrow>
   (accruedMovingTime s' = accruedMovingTime s + (timestamp c - timestamp p) / 1000 \<and>
    accruedPausedTime s' = accruedPausedTime s) \<or>
   (accruedMovingTime s' = accruedMovingTime s \<and>
    accruedPausedTime s' = accruedPausedTime s + (timestamp c - timestamp p) / 1000)"
  by (auto simp: loop_body_def Let_def isStationary_default_eq js_div_def split: if_splits)

lemma still_run_loop:
  "run_loop (still_path lat lon t) =
     Inr \<lparr>splitsArr = [], cumDist = 0, lastSplitKm = 0, splitStartTime = t,
          accruedMovingTime = 0, accruedPausedTime = 10, pauseCount = 1\<rparr>"
  by (simp add: still_path_def run_loop_def loop_body_def init_locals_def haversine_same
      isStationary_default_eq)

text \<open>
  C4. For a path of at least two points the moving time and the paused time add up to
  the elapsed time \<open>(t[last] - t[first]) / 1000\<close>, and every iteration adds the
  duration of its segment to exactly one of the two.
\<close>

theorem C4_time_sum:
  assumes "2 \<le> length path"
  shows "(\<exists>s st. run_loop path = Inr s \<and> WorkoutComplete (Some path) = Inr st \<and>
           movingTime st = accruedMovingTime s \<and>
           totalTime st = (timestamp (last path) - timestamp (hd path)) / 1000 \<and>
           movingTime st + accruedPausedTime s = totalTime st) \<and>
         (loop_body p c s0 = Inr s1 \<longrightarrow>
           (accruedMovingTime s1 = accruedMovingTime s0 + (timestamp c - timestamp p) / 1000 \<and>
            accruedPausedTime s1 = accruedPausedTime s0) \<or>
           (accruedMovingTime s1 = accruedMovingTime s0 \<and>
            accruedPausedTime s1 = accruedPausedTime s0 + (timestamp c - timestamp p) / 1000))"
proof -
  from assms obtain p0 rest where p: "path = p0 # rest" by (cases path) auto
  obtain s where s: "run_loop path = Inr s" using run_loop_total [of p0 rest] p by blast
  from calculateStats_fields [OF s] obtain st where st: "calculateStats path = Inr st"
    "movingTime st = accruedMovingTime s"
    "totalTime st = (timestamp (last path) - timestamp (hd path)) / 1000" by blast
  have "\<exists>s st. run_loop path = Inr s \<and> WorkoutComplete (Some path) = Inr st \<and>
           movingTime st = accruedMovingTime s \<and>
           totalTime st = (timestamp (last path) - timestamp (hd path)) / 1000 \<and>
           movingTime st + accruedPausedTime s = totalTime st"
    using s st run_loop_time [OF s] WorkoutComplete_accepts [OF assms] by simp
  then show ?thesis using loop_body_time_cases [of p c s0 s1] by blast
qed

theorem C4_time_sum_witness:
  "2 \<le> length (still_path 51 0 0) \<and>
   (\<exists>s st. run_loop (still_path 51 0 0) = Inr s \<and>
      WorkoutComplete (Some (still_path 51 0 0)) = Inr st \<and>
      movingTime st = accruedMovingTime s \<and>
      totalTime st = 10 \<and>
      movingTime st + accruedPausedTime s = totalTime st) \<and>
   loop_body \<lparr>latitude = 51, longitude = 0, timestamp = 0\<rparr>
             \<lparr>latitude = 51, longitude = 0, timestamp = 10000\<rparr>
             (init_locals \<lparr>latitude = 51, longitude = 0, timestamp = 0\<rparr>) =
     Inr \<lparr>splitsArr = [], cumDist = 0, lastSplitKm = 0, splitStartTime = 0,
          accruedMovingTime = 0, accruedPausedTime = 10, pauseCount = 1\<rparr>"
proof -
  have h: "2 \<le> length (still_path 51 0 0)" by (simp add: still_path_def)
  have b: "loop_body \<lparr>latitude = 51, longitude = 0, timestamp = 0\<rparr>
             \<lparr>latitude = 51, longitude = 0, timestamp = 10000\<rparr>
             (init_locals \<lparr>latitude = 51, longitude = 0, timestamp = 0\<rparr>) =
     Inr \<lparr>splitsArr = [], cumDist = 0, lastSplitKm = 0, splitStartTime = 0,
          accruedMovingTime = 0, accruedPausedTime = 10, pauseCount = 1\<rparr>"
    by (simp add: loop_body_def init_locals_def haversine_same isStationary_default_eq)
  have t: "(timestamp (last (still_path 51 0 0)) - timestamp (hd (still_path 51 0 0))) / 1000 = 10"
    by (simp add: still_path_def)
  show ?thesis
    using h b t
      C4_time_sum [OF h, of "\<lparr>latitude = 51, longitude = 0, timestamp = 0\<rparr>"
        "\<lparr>latitude = 51, longitude = 0, timestamp = 10000\<rparr>"
        "init_locals \<lparr>latitude = 51, longitude = 0, timestamp = 0\<rparr>"
        "\<lparr>splitsArr = [], cumDist = 0, lastSplitKm = 0, splitStartTime = 0,
          accruedMovingTime = 0, accruedPausedTime = 10, pauseCount = 1\<rparr>"]
    by simp
qed

text \<open>
  C5. Two points at the same coordinates, ten seconds apart: the segment is stationary
  and the statistics are one pause, distance 0, moving time 0, elapsed time 10 and
  no split.
\<close>

theorem C5_two_points_at_rest:
  "isStationary (haversine lat lon lat lon) ((t + 10000 - t) / 1000) (3 / 10) 5 = Inr True \<and>
   WorkoutComplete (Some [\<lparr>latitude = lat, longitude = lon, timestamp = t\<rparr>,
                          \<lparr>latitude = lat, longitude = lon, timestamp = t + 10000\<rparr>]) =
     Inr \<lparr>distance = 0, movingTime = 0, totalTime = 10, averageSpeed = 0,
          pausedSections = 1, splits = [], ready = True\<rparr>"
  using still_run_loop [of lat lon t]
  by (simp add: WorkoutComplete_def calculateStats_def set_state_def still_path_def
      isStationary_def js_div_def haversine_same)

text \<open>
  C6. For a path of at least two points the average speed is the cumulative distance
  divided by the moving time when the moving time is positive and 0 otherwise; the
  statistics are always returned, so no division by zero occurs.
\<close>

theorem C6_average_speed:
  assumes "2 \<le> length path"
  shows "\<exists>s st. run_loop path = Inr s \<and> WorkoutComplete (Some path) = Inr st \<and>
           distance st = cumDist s \<and> movingTime st = accruedMovingTime s \<and>
           averageSpeed st =
             (if movingTime st > 0 then distance st / movingTime st else 0)"
proof -
  from assms obtain p0 rest where p: "path = p0 # rest" by (cases path) auto
  obtain s where s: "run_loop path = Inr s" using run_loop_total [of p0 rest] p by blast
  from calculateStats_fields [OF s] obtain st where st: "calculateStats path = Inr st"
    "distance st = cumDist s" "movingTime st = accruedMovingTime s"
    "averageSpeed st = (if accruedMovingTime s > 0 then cumDist s / accruedMovingTime s else 0)"
    by blast
  show ?thesis
    using s st WorkoutComplete_accepts [OF assms] by simp
qed

theorem C6_average_speed_witness:
  "2 \<le> length walk_path \<and>
   (\<exists>s st. run_loop walk_path = Inr s \<and> WorkoutComplete (Some walk_path) = Inr st \<and>
      distance st = cumDist s \<and> movingTime st = accruedMovingTime s \<and>
      averageSpeed st = (if movingTime st > 0 then distance st / movingTime st else 0))"
proof -
  have h: "2 \<le> length walk_path" by (simp add: walk_path_def)
  show ?thesis using h C6_average_speed [OF h] by simp
qed

text \<open>
  C7. An iteration on a stationary segment adds one to the pause count and the
  duration of the segment to the paused time, and leaves the cumulative distance, the
  moving time, the last kilometre index, the start of the split and the splits as
  they were.
\<close>

theorem C7_paused_segment:
  assumes "isStationary_default
             (haversine (latitude p) (longitude p) (latitude c) (longitude c))
             ((timestamp c - timestamp p) / 1000) = Inr True"
  shows "\<exists>s'. loop_body p c s = Inr s' \<and>
           pauseCount s' = pauseCount s + 1 \<and>
           accruedPausedTime s' = accruedPausedTime s + (timestamp c - timestamp p) / 1000 \<and>
           cumDist s' = cumDist s \<and>
           accruedMovingTime s' = accruedMovingTime s \<and>
           lastSplitKm s' = lastSplitKm s \<and>
           splitStartTime s' = splitStartTime s \<and>
           splitsArr s' = splitsArr s"
  using assms by (simp add: loop_body_def Let_def)

theorem C7_paused_segment_witness:
  "isStationary_default (haversine 51 0 51 0) ((10000 - 0) / 1000) = Inr True \<and>
   (\<exists>s'. loop_body \<lparr>latitude = 51, longitude = 0, timestamp = 0\<rparr>
              \<lparr>latitude = 51, longitude = 0, timestamp = 10000\<rparr>
              (init_locals \<lparr>latitude = 51, longitude = 0, timestamp = 0\<rparr>) = Inr s' \<and>
      pauseCount s' = 1 \<and> accruedPausedTime s' = 10 \<and> cumDist s' = 0 \<and>
      accruedMovingTime s' = 0 \<and> lastSplitKm s' = 0 \<and> splitStartTime s' = 0 \<and>
      splitsArr s' = [])"
proof -
  have h: "isStationary_default (haversine 51 0 51 0) ((10000 - 0) / 1000) = Inr True"
    by (simp add: haversine_same isStationary_default_eq)
  show ?thesis
    using h C7_paused_segment [of "\<lparr>latitude = 51, longitude = 0, timestamp = 0\<rparr>"
        "\<lparr>latitude = 51, longitude = 0, timestamp = 10000\<rparr>"
        "init_locals \<lparr>latitude = 51, longitude = 0, timestamp = 0\<rparr>"]
    by (simp add: init_locals_def)
qed

end
